theory Spec2Isabelle
  imports Main
begin

section \<open>Exceptions, outcomes and the memory system\<close>

text \<open>
  The C++ exceptions the two headers can raise or let through: \<open>std::bad_alloc\<close>,
  \<open>std::domain_error\<close> and \<open>std::out_of_range\<close> with their \<open>what()\<close> strings, and whatever
  a constructor of the element type \<open>T\<close> throws (\<open>element_failure\<close>).
\<close>

datatype exn = bad_alloc | domain_error string | out_of_range string | element_failure

text \<open>
  A call returns a value, leaves by an exception, or has undefined behaviour (a read of
  raw storage, a destructor run on a slot holding no object, a release of storage that
  is not live).
\<close>

datatype 'a outcome = Returns 'a | Throws exn | Undefined

type_synonym ptr = nat

text \<open>
  \<open>AlignedAllocator<value_t, alignment_v>\<close> has no data members; its two template
  parameters are the fields: \<open>sizeof(value_type)\<close> and \<open>alignment\<close>.
\<close>

record AlignedAllocator =
  sizeof_value :: nat
  alignment :: nat

text \<open>
  The three data members \<open>alloc_\<close>, \<open>mem_\<close> and \<open>n_\<close> of \<open>DynArray\<close> (a name cannot end in an
  underscore here, hence the suffix); the pointer \<open>0\<close> is \<open>nullptr\<close>.
\<close>

record DynArray =
  alloc_f :: AlignedAllocator
  mem_f :: ptr
  n_f :: nat

text \<open>
  The machine: the live blocks of the free store, each an array of slots (\<open>None\<close> is raw
  storage, \<open>Some v\<close> a constructed element), the next unused address, the number of bytes
  the free store can still hand out, the \<open>DynArray\<close> objects by address, so that
  \<open>this\<close> and \<open>that\<close> may be the same object, and two counters an instrumented element
  type would keep: how many elements have been constructed and how many destroyed.
\<close>

record 'v world =
  blocks :: "ptr \<rightharpoonup> 'v option list"
  brk :: ptr
  avail :: nat
  objs :: "nat \<Rightarrow> DynArray"
  ctors :: nat
  dtors :: nat

text \<open>\<open>std::numeric_limits<size_type>::max()\<close> for a 64-bit \<open>size_type\<close>.\<close>

definition size_max :: nat where
  "size_max = 2 ^ 64 - 1"

text \<open>The compiler's \<open>__STDCPP_DEFAULT_NEW_ALIGNMENT__\<close> (16 on the usual 64-bit targets).\<close>

definition DEFAULT_NEW_ALIGNMENT :: nat where
  "DEFAULT_NEW_ALIGNMENT = 16"

definition align_up :: "nat \<Rightarrow> nat \<Rightarrow> nat" where
  "align_up x al = ((x + al - 1) div al) * al"

text \<open>
  The free store belongs to the C++ runtime, not to the repository; it is modelled by
  its contract in the language standard. \<open>::operator new(bytes, align_val_t(al))\<close>
  throws \<open>bad_alloc\<close> when the free store cannot satisfy the request, otherwise hands
  out a fresh non-null address that is a multiple of \<open>al\<close>. \<open>::operator new(bytes)\<close> is
  the same at the default alignment.
\<close>

definition operator_new_aligned :: "nat \<Rightarrow> nat \<Rightarrow> 'v world \<Rightarrow> ptr outcome \<times> 'v world" where
  "operator_new_aligned bytes al w =
     (if avail w < bytes then (Throws bad_alloc, w)
      else let p = align_up (max 1 (brk w)) al
           in (Returns p, w\<lparr>brk := p + max 1 bytes, avail := avail w - bytes\<rparr>))"

definition operator_new :: "nat \<Rightarrow> 'v world \<Rightarrow> ptr outcome \<times> 'v world" where
  "operator_new bytes w = operator_new_aligned bytes DEFAULT_NEW_ALIGNMENT w"

text \<open>\<open>static_cast<pointer>\<close> of the fresh storage: \<open>n\<close> raw slots at that address.\<close>

definition as_array :: "nat \<Rightarrow> ptr outcome \<times> 'v world \<Rightarrow> ptr outcome \<times> 'v world" where
  "as_array n r =
     (case r of
        (Returns p, w) \<Rightarrow> (Returns p, w\<lparr>blocks := (blocks w)(p \<mapsto> replicate n None)\<rparr>)
      | (Throws e, w) \<Rightarrow> (Throws e, w)
      | (Undefined, w) \<Rightarrow> (Undefined, w))"

text \<open>\<open>::operator delete(p, bytes)\<close> and its aligned form: \<open>p\<close> must be a live block.\<close>

definition operator_delete_aligned :: "ptr \<Rightarrow> nat \<Rightarrow> nat \<Rightarrow> 'v world \<Rightarrow> unit outcome \<times> 'v world" where
  "operator_delete_aligned p bytes al w =
     (case blocks w p of
        None \<Rightarrow> (Undefined, w)
      | Some sl \<Rightarrow> (Returns (), w\<lparr>blocks := (blocks w)(p := None), avail := avail w + bytes\<rparr>))"

definition operator_delete :: "ptr \<Rightarrow> nat \<Rightarrow> 'v world \<Rightarrow> unit outcome \<times> 'v world" where
  "operator_delete p bytes w = operator_delete_aligned p bytes DEFAULT_NEW_ALIGNMENT w"

section \<open>AlignedAllocator\<close>

definition AlignedAllocator_allocate ::
    "AlignedAllocator \<Rightarrow> nat \<Rightarrow> 'v world \<Rightarrow> ptr outcome \<times> 'v world" where
  "AlignedAllocator_allocate a n w =
     (let max_size = size_max div sizeof_value a in
      if n > max_size then (Throws bad_alloc, w)
      else
        let bytes_to_allocate = (n * sizeof_value a) mod 2 ^ 64 in
        if alignment a \<le> DEFAULT_NEW_ALIGNMENT
        then as_array n (operator_new bytes_to_allocate w)
        else as_array n (operator_new_aligned bytes_to_allocate (alignment a) w))"

definition AlignedAllocator_deallocate ::
    "AlignedAllocator \<Rightarrow> ptr \<Rightarrow> nat \<Rightarrow> 'v world \<Rightarrow> unit outcome \<times> 'v world" where
  "AlignedAllocator_deallocate a p n w =
     (let bytes_to_deallocate = (n * sizeof_value a) mod 2 ^ 64 in
      if alignment a \<le> DEFAULT_NEW_ALIGNMENT
      then operator_delete p bytes_to_deallocate w
      else operator_delete_aligned p bytes_to_deallocate (alignment a) w)"

text \<open>\<open>operator==\<close> and \<open>operator!=\<close> between two instantiations.\<close>

definition AlignedAllocator_eq :: "AlignedAllocator \<Rightarrow> AlignedAllocator \<Rightarrow> bool" where
  "AlignedAllocator_eq a a2 = (alignment a = alignment a2)"

definition AlignedAllocator_neq :: "AlignedAllocator \<Rightarrow> AlignedAllocator \<Rightarrow> bool" where
  "AlignedAllocator_neq a a2 = (alignment a \<noteq> alignment a2)"

section \<open>DynArray\<close>

text \<open>
  \<open>DynArray<T, Allocator>\<close> is embedded with the repository's own allocator,
  \<open>AlignedAllocator<T, alignment>\<close>, as its \<open>Allocator\<close>.
\<close>

text \<open>Assignment to one data member of the object at \<open>this\<close>.\<close>

definition set_alloc :: "nat \<Rightarrow> AlignedAllocator \<Rightarrow> 'v world \<Rightarrow> 'v world" where
  "set_alloc this a w = w\<lparr>objs := (objs w)(this := (objs w this)\<lparr>alloc_f := a\<rparr>)\<rparr>"

definition set_mem :: "nat \<Rightarrow> ptr \<Rightarrow> 'v world \<Rightarrow> 'v world" where
  "set_mem this p w = w\<lparr>objs := (objs w)(this := (objs w this)\<lparr>mem_f := p\<rparr>)\<rparr>"

definition set_n :: "nat \<Rightarrow> nat \<Rightarrow> 'v world \<Rightarrow> 'v world" where
  "set_n this n w = w\<lparr>objs := (objs w)(this := (objs w this)\<lparr>n_f := n\<rparr>)\<rparr>"

text \<open>
  \<open>std::allocator_traits<A>::construct(alloc_, mem_ + i, args...)\<close>: placement-new of a
  \<open>T\<close> into slot \<open>i\<close> of the block at \<open>p\<close>. The argument \<open>r\<close> is what \<open>T\<close>'s constructor
  does with the forwarded arguments: \<open>Some v\<close> when it builds the value \<open>v\<close>, \<open>None\<close> when
  it throws.
\<close>

definition construct :: "ptr \<Rightarrow> nat \<Rightarrow> 'v option \<Rightarrow> 'v world \<Rightarrow> unit outcome \<times> 'v world" where
  "construct p i r w =
     (case blocks w p of
        None \<Rightarrow> (Undefined, w)
      | Some sl \<Rightarrow>
          if i < length sl
          then (case r of
                  None \<Rightarrow> (Throws element_failure, w)
                | Some v \<Rightarrow>
                    (Returns (),
                     w\<lparr>blocks := (blocks w)(p \<mapsto> sl[i := Some v]), ctors := ctors w + 1\<rparr>))
          else (Undefined, w))"

text \<open>
  \<open>std::allocator_traits<A>::destroy(alloc_, mem_ + i)\<close>: runs \<open>~T()\<close> on slot \<open>i\<close>, which
  must hold an object; destructors do not throw.
\<close>

definition destroy :: "ptr \<Rightarrow> nat \<Rightarrow> 'v world \<Rightarrow> unit outcome \<times> 'v world" where
  "destroy p i w =
     (case blocks w p of
        None \<Rightarrow> (Undefined, w)
      | Some sl \<Rightarrow>
          if i < length sl \<and> sl ! i \<noteq> None
          then (Returns (), w\<lparr>blocks := (blocks w)(p \<mapsto> sl[i := None]), dtors := dtors w + 1\<rparr>)
          else (Undefined, w))"

text \<open>
  \<open>for (std::size_t i = 0; i < n; i++) destroy(alloc_, mem_ + i);\<close> of
  \<open>DynArray::deallocate\<close>, from any starting index.
\<close>

function destroy_loop :: "ptr \<Rightarrow> nat \<Rightarrow> nat \<Rightarrow> 'v world \<Rightarrow> unit outcome \<times> 'v world" where
  "destroy_loop p i n w =
     (if i < n
      then (case destroy p i w of
              (Returns u, w') \<Rightarrow> destroy_loop p (Suc i) n w'
            | (Throws e, w') \<Rightarrow> (Throws e, w')
            | (Undefined, w') \<Rightarrow> (Undefined, w'))
      else (Returns (), w))"
  by pat_completeness auto
termination
  by (relation "measure (\<lambda>(p, i, n, w). n - i)") auto

declare destroy_loop.simps [simp del]

text \<open>
  \<open>for (std::size_t i = 0; i < n; i++) construct(alloc_, mem_ + i, args...);\<close> where
  \<open>ctor i\<close> is the outcome of the \<open>i\<close>-th constructor call of the loop (every call gets
  the same arguments, but a constructor may still fail on one call and not another).
\<close>

function construct_loop ::
    "(nat \<Rightarrow> 'v option) \<Rightarrow> ptr \<Rightarrow> nat \<Rightarrow> nat \<Rightarrow> 'v world \<Rightarrow> unit outcome \<times> 'v world" where
  "construct_loop ctor p i n w =
     (if i < n
      then (case construct p i (ctor i) w of
              (Returns u, w') \<Rightarrow> construct_loop ctor p (Suc i) n w'
            | (Throws e, w') \<Rightarrow> (Throws e, w')
            | (Undefined, w') \<Rightarrow> (Undefined, w'))
      else (Returns (), w))"
  by pat_completeness auto
termination
  by (relation "measure (\<lambda>(ctor, p, i, n, w). n - i)") auto

declare construct_loop.simps [simp del]

text \<open>
  What an input iterator of a range points at: a value outside the free store, or slot
  \<open>i\<close> of the block at \<open>p\<close> (the pointer \<open>p + i\<close>). Dereferencing a pointer to raw or
  released storage is undefined.
\<close>

datatype 'v src = Val 'v | Slot ptr nat

definition deref :: "'v src \<Rightarrow> 'v world \<Rightarrow> 'v outcome" where
  "deref r w =
     (case r of
        Val v \<Rightarrow> Returns v
      | Slot p i \<Rightarrow>
          (case blocks w p of
             None \<Rightarrow> Undefined
           | Some sl \<Rightarrow>
               if i < length sl
               then (case sl ! i of None \<Rightarrow> Undefined | Some v \<Rightarrow> Returns v)
               else Undefined))"

text \<open>
  \<open>std::uninitialized_copy(first, last, d_first)\<close> of the standard library, with \<open>cp\<close> the
  copy constructor of \<open>T\<close> (\<open>None\<close> when it throws): copy-constructs into the slots from
  \<open>d_first\<close> on, reading each source when its turn comes; when a copy throws, the objects
  already constructed, slots \<open>[0, cur)\<close>, are destroyed (by the same loop over slots as
  above) and the exception is rethrown.
\<close>

fun uninitialized_copy_from ::
    "('v \<Rightarrow> 'v option) \<Rightarrow> 'v src list \<Rightarrow> ptr \<Rightarrow> nat \<Rightarrow> 'v world \<Rightarrow> unit outcome \<times> 'v world" where
  "uninitialized_copy_from cp [] p cur w = (Returns (), w)"
| "uninitialized_copy_from cp (r # rs) p cur w =
     (case deref r w of
        Returns v \<Rightarrow>
          (case construct p cur (cp v) w of
             (Returns u, w') \<Rightarrow> uninitialized_copy_from cp rs p (Suc cur) w'
           | (Throws e, w') \<Rightarrow>
               (case destroy_loop p 0 cur w' of
                  (Returns u, w'') \<Rightarrow> (Throws e, w'')
                | (Throws e', w'') \<Rightarrow> (Throws e', w'')
                | (Undefined, w'') \<Rightarrow> (Undefined, w''))
           | (Undefined, w') \<Rightarrow> (Undefined, w'))
      | Throws e \<Rightarrow> (Throws e, w)
      | Undefined \<Rightarrow> (Undefined, w))"

definition uninitialized_copy ::
    "('v \<Rightarrow> 'v option) \<Rightarrow> 'v src list \<Rightarrow> ptr \<Rightarrow> 'v world \<Rightarrow> unit outcome \<times> 'v world" where
  "uninitialized_copy cp rs p w = uninitialized_copy_from cp rs p 0 w"

text \<open>The range \<open>[begin(), end())\<close> of an array: the pointers \<open>mem_ + 0 .. mem_ + n_\<close>.\<close>

definition begin_end :: "DynArray \<Rightarrow> 'v src list" where
  "begin_end d = map (Slot (mem_f d)) [0..<n_f d]"

text \<open>\<open>DynArray::deallocate()\<close>\<close>

definition DynArray_deallocate :: "nat \<Rightarrow> 'v world \<Rightarrow> unit outcome \<times> 'v world" where
  "DynArray_deallocate this w =
     (if mem_f (objs w this) = 0 then (Returns (), w)
      else (case destroy_loop (mem_f (objs w this)) 0 (n_f (objs w this)) w of
              (Returns u, w') \<Rightarrow>
                AlignedAllocator_deallocate (alloc_f (objs w' this)) (mem_f (objs w' this))
                  (n_f (objs w' this)) w'
            | (Throws e, w') \<Rightarrow> (Throws e, w')
            | (Undefined, w') \<Rightarrow> (Undefined, w')))"

text \<open>
  \<open>DynArray(std::size_t n, Allocator a, ConstructionArgs &&...args)\<close>, building the
  object at \<open>this\<close>. When a constructor throws, the object never comes to life and its
  destructor does not run.
\<close>

definition DynArray_sized ::
    "nat \<Rightarrow> nat \<Rightarrow> AlignedAllocator \<Rightarrow> (nat \<Rightarrow> 'v option) \<Rightarrow> 'v world \<Rightarrow> unit outcome \<times> 'v world" where
  "DynArray_sized this n a ctor w =
     (let w1 = w\<lparr>objs := (objs w)(this := \<lparr>alloc_f = a, mem_f = 0, n_f = n\<rparr>)\<rparr> in
      case AlignedAllocator_allocate (alloc_f (objs w1 this)) n w1 of
        (Returns p, w2) \<Rightarrow>
          (let w3 = set_mem this p w2
           in construct_loop ctor (mem_f (objs w3 this)) 0 n w3)
      | (Throws e, w2) \<Rightarrow> (Throws e, w2)
      | (Undefined, w2) \<Rightarrow> (Undefined, w2))"

text \<open>
  \<open>DynArray(Iterator begin, Iterator end, Allocator a)\<close>; \<open>n_\<close> is
  \<open>std::distance(begin, end)\<close>, the length of the range.
\<close>

definition DynArray_range ::
    "nat \<Rightarrow> 'v src list \<Rightarrow> AlignedAllocator \<Rightarrow> ('v \<Rightarrow> 'v option) \<Rightarrow> 'v world
       \<Rightarrow> unit outcome \<times> 'v world" where
  "DynArray_range this rs a cp w =
     (let w1 = w\<lparr>objs := (objs w)(this := \<lparr>alloc_f = a, mem_f = 0, n_f = length rs\<rparr>)\<rparr> in
      case AlignedAllocator_allocate (alloc_f (objs w1 this)) (n_f (objs w1 this)) w1 of
        (Returns p, w2) \<Rightarrow>
          (let w3 = set_mem this p w2 in
           case uninitialized_copy cp rs (mem_f (objs w3 this)) w3 of
             (Returns u, w4) \<Rightarrow> (Returns (), w4)
           | (Throws e, w4) \<Rightarrow>
               (case AlignedAllocator_deallocate (alloc_f (objs w4 this)) (mem_f (objs w4 this))
                       (n_f (objs w4 this)) w4 of
                  (Returns u, w5) \<Rightarrow> (Throws e, w5)
                | (Throws e', w5) \<Rightarrow> (Throws e', w5)
                | (Undefined, w5) \<Rightarrow> (Undefined, w5))
           | (Undefined, w4) \<Rightarrow> (Undefined, w4))
      | (Throws e, w2) \<Rightarrow> (Throws e, w2)
      | (Undefined, w2) \<Rightarrow> (Undefined, w2))"

text \<open>
  \<open>operator=(const DynArray &that)\<close>. For \<open>AlignedAllocator\<close>,
  \<open>select_on_container_copy_construction\<close> returns a copy of its argument.
\<close>

definition DynArray_copy_assign ::
    "('v \<Rightarrow> 'v option) \<Rightarrow> nat \<Rightarrow> nat \<Rightarrow> 'v world \<Rightarrow> unit outcome \<times> 'v world" where
  "DynArray_copy_assign cp this that w =
     (case DynArray_deallocate this w of
        (Returns u, w1) \<Rightarrow>
          (let w2 = set_mem this (mem_f (objs w1 that)) w1;
               w3 = set_alloc this (alloc_f (objs w2 that)) w2;
               w4 = set_n this (n_f (objs w3 that)) w3 in
           case AlignedAllocator_allocate (alloc_f (objs w4 this)) (n_f (objs w4 this)) w4 of
             (Returns p, w5) \<Rightarrow>
               (let w6 = set_mem this p w5
                in uninitialized_copy cp (begin_end (objs w6 that)) (mem_f (objs w6 this)) w6)
           | (Throws e, w5) \<Rightarrow> (Throws e, w5)
           | (Undefined, w5) \<Rightarrow> (Undefined, w5))
      | (Throws e, w1) \<Rightarrow> (Throws e, w1)
      | (Undefined, w1) \<Rightarrow> (Undefined, w1))"

text \<open>\<open>DynArray(DynArray &&that)\<close>, building the object at \<open>this\<close>.\<close>

definition DynArray_move :: "nat \<Rightarrow> nat \<Rightarrow> 'v world \<Rightarrow> unit outcome \<times> 'v world" where
  "DynArray_move this that w =
     (let w1 = set_alloc this (alloc_f (objs w that)) w;
          w2 = set_mem this (mem_f (objs w1 that)) w1;
          w3 = set_mem that 0 w2;
          w4 = set_n this (n_f (objs w3 that)) w3;
          w5 = set_n that 0 w4
      in (Returns (), w5))"

text \<open>\<open>operator=(DynArray &&that)\<close>\<close>

definition DynArray_move_assign :: "nat \<Rightarrow> nat \<Rightarrow> 'v world \<Rightarrow> unit outcome \<times> 'v world" where
  "DynArray_move_assign this that w =
     (case DynArray_deallocate this w of
        (Returns u, w0) \<Rightarrow>
          (let w1 = set_alloc this (alloc_f (objs w0 that)) w0;
               w2 = set_mem this (mem_f (objs w1 that)) w1;
               w3 = set_mem that 0 w2;
               w4 = set_n this (n_f (objs w3 that)) w3;
               w5 = set_n that 0 w4
           in (Returns (), w5))
      | (Throws e, w0) \<Rightarrow> (Throws e, w0)
      | (Undefined, w0) \<Rightarrow> (Undefined, w0))"

text \<open>\<open>reset(std::size_t n)\<close>; \<open>dctor i\<close> is the outcome of the \<open>i\<close>-th default construction.\<close>

definition DynArray_reset ::
    "(nat \<Rightarrow> 'v option) \<Rightarrow> nat \<Rightarrow> nat \<Rightarrow> 'v world \<Rightarrow> unit outcome \<times> 'v world" where
  "DynArray_reset dctor this n w =
     (case DynArray_deallocate this w of
        (Returns u, w1) \<Rightarrow>
          (let w2 = set_n this n w1 in
           case AlignedAllocator_allocate (alloc_f (objs w2 this)) (n_f (objs w2 this)) w2 of
             (Returns p, w3) \<Rightarrow>
               (let w4 = set_mem this p w3
                in construct_loop dctor (mem_f (objs w4 this)) 0 n w4)
           | (Throws e, w3) \<Rightarrow> (Throws e, w3)
           | (Undefined, w3) \<Rightarrow> (Undefined, w3))
      | (Throws e, w1) \<Rightarrow> (Throws e, w1)
      | (Undefined, w1) \<Rightarrow> (Undefined, w1))"

text \<open>\<open>std::to_string\<close> of an unsigned value: its decimal digits.\<close>

definition digit_char :: "nat \<Rightarrow> char" where
  "digit_char d = char_of (48 + d)"

function to_string :: "nat \<Rightarrow> string" where
  "to_string n = (if n < 10 then [digit_char n] else to_string (n div 10) @ [digit_char (n mod 10)])"
  by pat_completeness auto
termination
  by (relation "measure (\<lambda>n. n)") auto

declare to_string.simps [simp del]

text \<open>\<open>size()\<close>, \<open>empty()\<close> and \<open>check_range(i)\<close>\<close>

definition DynArray_size :: "nat \<Rightarrow> 'v world \<Rightarrow> nat" where
  "DynArray_size this w = n_f (objs w this)"

definition DynArray_empty :: "nat \<Rightarrow> 'v world \<Rightarrow> bool" where
  "DynArray_empty this w = (n_f (objs w this) = 0)"

definition check_range :: "nat \<Rightarrow> nat \<Rightarrow> 'v world \<Rightarrow> unit outcome" where
  "check_range this i w =
     (if mem_f (objs w this) = 0 then Throws (domain_error ''uninitialized DynArray'')
      else if i \<ge> n_f (objs w this)
      then Throws (out_of_range (''elt '' @ to_string i @ '', size '' @ to_string (n_f (objs w this))))
      else Returns ())"

text \<open>
  \<open>operator[]\<close>, \<open>at\<close>, \<open>front\<close> and \<open>back\<close> return a reference: the slot \<open>mem_[i]\<close>, as the
  block's address and the index.
\<close>

definition DynArray_index :: "nat \<Rightarrow> nat \<Rightarrow> 'v world \<Rightarrow> (ptr \<times> nat) outcome" where
  "DynArray_index this i w =
     (case check_range this i w of
        Returns u \<Rightarrow> Returns (mem_f (objs w this), i)
      | Throws e \<Rightarrow> Throws e
      | Undefined \<Rightarrow> Undefined)"

definition DynArray_at :: "nat \<Rightarrow> nat \<Rightarrow> 'v world \<Rightarrow> (ptr \<times> nat) outcome" where
  "DynArray_at this i w =
     (case check_range this i w of
        Returns u \<Rightarrow> Returns (mem_f (objs w this), i)
      | Throws e \<Rightarrow> Throws e
      | Undefined \<Rightarrow> Undefined)"

definition DynArray_front :: "nat \<Rightarrow> 'v world \<Rightarrow> (ptr \<times> nat) outcome" where
  "DynArray_front this w =
     (if DynArray_empty this w then Throws (domain_error ''uninitialized DynArray'')
      else Returns (mem_f (objs w this), 0))"

definition DynArray_back :: "nat \<Rightarrow> 'v world \<Rightarrow> (ptr \<times> nat) outcome" where
  "DynArray_back this w =
     (if DynArray_empty this w then Throws (domain_error ''uninitialized DynArray'')
      else Returns (mem_f (objs w this), n_f (objs w this) - 1))"

section \<open>States of an array and of the free store\<close>

text \<open>
  The structural invariant of an array object: the empty state (null pointer, size
  zero), or a non-null pointer to a live block of exactly \<open>n_\<close> slots, all of them
  holding constructed elements.
\<close>

definition empty_state :: "nat \<Rightarrow> 'v world \<Rightarrow> bool" where
  "empty_state this w = (mem_f (objs w this) = 0 \<and> n_f (objs w this) = 0)"

definition DynArray_inv :: "nat \<Rightarrow> 'v world \<Rightarrow> bool" where
  "DynArray_inv this w =
     (empty_state this w \<or>
      (mem_f (objs w this) \<noteq> 0 \<and>
       (case blocks w (mem_f (objs w this)) of
          None \<Rightarrow> False
        | Some sl \<Rightarrow> length sl = n_f (objs w this) \<and> list_all (\<lambda>x. x \<noteq> None) sl)))"

text \<open>The elements an array holds, in order.\<close>

definition elements :: "nat \<Rightarrow> 'v world \<Rightarrow> 'v option list" where
  "elements this w =
     (if mem_f (objs w this) = 0 then []
      else (case blocks w (mem_f (objs w this)) of None \<Rightarrow> [] | Some sl \<Rightarrow> take (n_f (objs w this)) sl))"

text \<open>Every live block lies below the next unused address, which is never null.\<close>

definition heap_wf :: "'v world \<Rightarrow> bool" where
  "heap_wf w = (0 < brk w \<and> (\<forall>p. blocks w p \<noteq> None \<longrightarrow> p < brk w))"

text \<open>A free store with \<open>m\<close> bytes to hand out, no live block and no array.\<close>

definition init_world :: "nat \<Rightarrow> 'v world" where
  "init_world m =
     \<lparr>blocks = Map.empty, brk = 1, avail = m,
      objs = (\<lambda>x. \<lparr>alloc_f = \<lparr>sizeof_value = 1, alignment = 1\<rparr>, mem_f = 0, n_f = 0\<rparr>),
      ctors = 0, dtors = 0\<rparr>"

text \<open>Whether a call left by \<open>std::out_of_range\<close>.\<close>

definition is_out_of_range :: "'a outcome \<Rightarrow> bool" where
  "is_out_of_range r =
     (case r of
        Throws e \<Rightarrow> (case e of out_of_range msg \<Rightarrow> True | bad_alloc \<Rightarrow> False
                      | domain_error msg \<Rightarrow> False | element_failure \<Rightarrow> False)
      | Returns x \<Rightarrow> False
      | Undefined \<Rightarrow> False)"

text \<open>
  The address \<open>AlignedAllocator::allocate\<close> gets from the free store: the default path
  serves the default alignment, the alignment-aware path the allocator's own.
\<close>

definition alloc_addr :: "AlignedAllocator \<Rightarrow> 'v world \<Rightarrow> ptr" where
  "alloc_addr a w =
     align_up (max 1 (brk w))
       (if alignment a \<le> DEFAULT_NEW_ALIGNMENT then DEFAULT_NEW_ALIGNMENT else alignment a)"

section \<open>Example runs\<close>

text \<open>
  An allocator of 4-byte elements at alignment 16, and the world in which object \<open>0\<close> is
  \<open>DynArray<int>(2, 7)\<close>, built in a free store of 1000 bytes.
\<close>

definition int_alloc :: AlignedAllocator where
  "int_alloc = \<lparr>sizeof_value = 4, alignment = 16\<rparr>"

definition sevens :: "nat world" where
  "sevens = snd (DynArray_sized 0 2 int_alloc (\<lambda>i. Some 7) (init_world 1000))"

text \<open>The same world with a second array, object \<open>1\<close>, built from the range \<open>{7, 9}\<close>.\<close>

definition two_arrays :: "nat world" where
  "two_arrays = snd (DynArray_range 1 [Val 7, Val 9] int_alloc Some sevens)"

text \<open>An element type whose copy constructor throws on the value \<open>9\<close>.\<close>

definition copy_throws_on_9 :: "nat \<Rightarrow> nat option" where
  "copy_throws_on_9 v = (if v = 9 then None else Some v)"

text \<open>An element type whose constructor throws on its second call (slot \<open>1\<close>).\<close>

definition second_ctor_throws :: "nat \<Rightarrow> nat \<Rightarrow> nat option" where
  "second_ctor_throws v i = (if i = 1 then None else Some v)"

text \<open>The world after object \<open>0\<close> of \<open>sevens\<close> has been moved into a new object \<open>1\<close>.\<close>

definition moved_from :: "nat world" where
  "moved_from = snd (DynArray_move 1 0 sevens)"

section \<open>Evaluating the example runs\<close>

lemma replicate_two: "replicate 2 x = [x, x]"
  by (simp add: numeral_2_eq_2)

lemma upt_two: "[0..<2] = [0, 1]"
  by (simp add: upt_rec)

lemmas run_defs = init_world_def DynArray_sized_def AlignedAllocator_allocate_def size_max_def
  DEFAULT_NEW_ALIGNMENT_def operator_new_def operator_new_aligned_def as_array_def align_up_def
  set_mem_def set_n_def set_alloc_def construct_loop.simps destroy_loop.simps construct_def
  destroy_def Let_def DynArray_reset_def DynArray_deallocate_def AlignedAllocator_deallocate_def
  operator_delete_def operator_delete_aligned_def DynArray_copy_assign_def DynArray_range_def
  uninitialized_copy_def begin_end_def deref_def DynArray_move_def DynArray_move_assign_def
  int_alloc_def copy_throws_on_9_def second_ctor_throws_def replicate_two upt_two

lemma to_string_5: "to_string 5 = ''5''"
  by code_simp

lemma to_string_2: "to_string 2 = ''2''"
  by code_simp

lemma sevens_0: "objs sevens 0 = \<lparr>alloc_f = int_alloc, mem_f = 16, n_f = 2\<rparr>"
  by (simp add: sevens_def run_defs)

lemma sevens_blocks: "blocks sevens = [16 \<mapsto> [Some 7, Some 7]]"
  by (simp add: sevens_def run_defs)

lemma sevens_brk_avail: "brk sevens = 24 \<and> avail sevens = 992"
  by (simp add: sevens_def run_defs)

lemma sevens_inv: "DynArray_inv 0 sevens"
  by (simp add: DynArray_inv_def empty_state_def sevens_0 sevens_blocks)

lemma moved_from_0: "mem_f (objs moved_from 0) = 0 \<and> n_f (objs moved_from 0) = 0"
  by (simp add: moved_from_def sevens_def run_defs)

lemma two_arrays_inv: "DynArray_inv 0 two_arrays"
  by (simp add: two_arrays_def sevens_def DynArray_inv_def empty_state_def run_defs)

lemma two_arrays_mem:
  "mem_f (objs two_arrays 0) = 16 \<and> mem_f (objs two_arrays 1) = 32"
  by (simp add: two_arrays_def sevens_def run_defs)

lemma two_arrays_elements: "elements 1 two_arrays = [Some 7, Some 9]"
  by (simp add: two_arrays_def sevens_def elements_def run_defs)

section \<open>Properties of the allocator\<close>

lemma size_max_div_mult: "n \<le> size_max div s \<Longrightarrow> n * s \<le> size_max"
proof -
  assume "n \<le> size_max div s"
  then have "n * s \<le> size_max div s * s" by (rule mult_le_mono1)
  also have "\<dots> \<le> size_max" by simp
  finally show ?thesis .
qed

lemma bytes_no_wrap: "n \<le> size_max div s \<Longrightarrow> (n * s) mod 2 ^ 64 = n * s"
proof -
  assume "n \<le> size_max div s"
  then have "n * s \<le> size_max" by (rule size_max_div_mult)
  then have "n * s < 2 ^ 64" by (simp add: size_max_def)
  then show ?thesis by simp
qed

lemma align_up_dvd: "al dvd align_up x al"
  by (simp add: align_up_def)

lemma align_up_ge: "0 < al \<Longrightarrow> x \<le> align_up x al"
proof -
  assume al: "0 < al"
  have "x + al - 1 < ((x + al - 1) div al) * al + al"
    using al by (metis add.commute div_mult_self1_is_m dividend_less_times_div mult.commute nat_neq_iff)
  then show ?thesis using al by (simp add: align_up_def)
qed

lemma pow2_le_16_dvd: "(2::nat) ^ k \<le> 16 \<Longrightarrow> (2::nat) ^ k dvd 16"
proof -
  assume "(2::nat) ^ k \<le> 16"
  then have "(2::nat) ^ k \<le> 2 ^ 4" by simp
  then have "k \<le> 4" by (simp only: power_increasing_iff)
  then have "(2::nat) ^ k dvd 2 ^ 4" by (rule le_imp_power_dvd)
  then show ?thesis by simp
qed

lemma alloc_addr_pos: "0 < alignment a \<Longrightarrow> 0 < alloc_addr a w"
proof -
  assume a: "0 < alignment a"
  let ?al = "if alignment a \<le> DEFAULT_NEW_ALIGNMENT then DEFAULT_NEW_ALIGNMENT else alignment a"
  have "0 < ?al" using a by (simp add: DEFAULT_NEW_ALIGNMENT_def)
  then have "max 1 (brk w) \<le> align_up (max 1 (brk w)) ?al" by (rule align_up_ge)
  then show ?thesis by (simp add: alloc_addr_def)
qed

lemma alloc_addr_ge: "0 < alignment a \<Longrightarrow> brk w \<le> alloc_addr a w"
proof -
  assume a: "0 < alignment a"
  let ?al = "if alignment a \<le> DEFAULT_NEW_ALIGNMENT then DEFAULT_NEW_ALIGNMENT else alignment a"
  have "0 < ?al" using a by (simp add: DEFAULT_NEW_ALIGNMENT_def)
  then have "max 1 (brk w) \<le> align_up (max 1 (brk w)) ?al" by (rule align_up_ge)
  then show ?thesis by (simp add: alloc_addr_def)
qed

lemma alloc_addr_aligned: "alignment a = 2 ^ k \<Longrightarrow> alignment a dvd alloc_addr a w"
proof (cases "alignment a \<le> DEFAULT_NEW_ALIGNMENT")
  case True
  assume p: "alignment a = 2 ^ k"
  with True have "alignment a dvd DEFAULT_NEW_ALIGNMENT"
    by (simp add: DEFAULT_NEW_ALIGNMENT_def pow2_le_16_dvd)
  moreover have "DEFAULT_NEW_ALIGNMENT dvd alloc_addr a w"
    using True by (simp add: alloc_addr_def align_up_dvd)
  ultimately show ?thesis by (rule dvd_trans)
next
  case False
  then show ?thesis by (simp add: alloc_addr_def align_up_dvd)
qed

lemma allocate_overflow: "size_max div sizeof_value a < n \<Longrightarrow> AlignedAllocator_allocate a n w = (Throws bad_alloc, w)"
  by (simp add: AlignedAllocator_allocate_def)

lemma allocate_paths:
  "n \<le> size_max div sizeof_value a \<Longrightarrow>
   AlignedAllocator_allocate a n w =
     as_array n (if alignment a \<le> DEFAULT_NEW_ALIGNMENT
                 then operator_new (n * sizeof_value a) w
                 else operator_new_aligned (n * sizeof_value a) (alignment a) w)"
  using bytes_no_wrap [of n "sizeof_value a"] by (simp add: AlignedAllocator_allocate_def)

lemma allocate_exhausted:
  "n \<le> size_max div sizeof_value a \<Longrightarrow> avail w < n * sizeof_value a \<Longrightarrow>
   AlignedAllocator_allocate a n w = (Throws bad_alloc, w)"
  by (simp add: allocate_paths operator_new_def operator_new_aligned_def as_array_def)

lemma allocate_success:
  "n \<le> size_max div sizeof_value a \<Longrightarrow> n * sizeof_value a \<le> avail w \<Longrightarrow>
   AlignedAllocator_allocate a n w =
     (Returns (alloc_addr a w),
      w\<lparr>brk := alloc_addr a w + max 1 (n * sizeof_value a),
        avail := avail w - n * sizeof_value a,
        blocks := (blocks w)(alloc_addr a w \<mapsto> replicate n None)\<rparr>)"
  by (simp add: allocate_paths operator_new_def operator_new_aligned_def as_array_def alloc_addr_def Let_def)

text \<open>
  C8. Two allocator instances compare equal exactly when their alignments match, whatever
  their element types; \<open>operator!=\<close> is the negation of \<open>operator==\<close>.
\<close>

theorem AlignedAllocator_equality:
  "AlignedAllocator_eq \<lparr>sizeof_value = s1, alignment = al1\<rparr> \<lparr>sizeof_value = s2, alignment = al2\<rparr>
     = (al1 = al2)
   \<and> AlignedAllocator_neq a a2 = (\<not> AlignedAllocator_eq a a2)"
  by (simp add: AlignedAllocator_eq_def AlignedAllocator_neq_def)

text \<open>
  C9. \<open>allocate(n)\<close> throws \<open>bad_alloc\<close> and leaves the free store as it was exactly when
  \<open>n * sizeof(T)\<close> exceeds the largest \<open>size_type\<close> value, that is when
  \<open>n > max / sizeof(T)\<close>. Otherwise the byte count \<open>n * sizeof(T)\<close> reaches the underlying
  \<open>operator new\<close> unwrapped, and whichever of the two paths the alignment selects, the
  caller sees the same thing: \<open>bad_alloc\<close> and an unchanged free store when the bytes are
  not available, else a non-null pointer that is a multiple of the alignment, to \<open>n\<close> raw
  slots, with the free store charged \<open>n * sizeof(T)\<close> bytes.
\<close>

theorem AlignedAllocator_allocate_overflow:
  assumes "0 < sizeof_value a" and "alignment a = 2 ^ k"
  shows "(size_max < n * sizeof_value a \<longleftrightarrow> size_max div sizeof_value a < n)
       \<and> (size_max div sizeof_value a < n \<longrightarrow> AlignedAllocator_allocate a n w = (Throws bad_alloc, w))
       \<and> (n \<le> size_max div sizeof_value a \<longrightarrow>
            AlignedAllocator_allocate a n w =
              as_array n (if alignment a \<le> DEFAULT_NEW_ALIGNMENT
                          then operator_new (n * sizeof_value a) w
                          else operator_new_aligned (n * sizeof_value a) (alignment a) w)
          \<and> (avail w < n * sizeof_value a \<longrightarrow>
                AlignedAllocator_allocate a n w = (Throws bad_alloc, w))
          \<and> (n * sizeof_value a \<le> avail w \<longrightarrow>
                (\<exists>p. fst (AlignedAllocator_allocate a n w) = Returns p \<and> p \<noteq> 0 \<and> alignment a dvd p
                   \<and> blocks (snd (AlignedAllocator_allocate a n w)) p = Some (replicate n None)
                   \<and> avail (snd (AlignedAllocator_allocate a n w)) = avail w - n * sizeof_value a)))"
proof -
  have ov: "size_max < n * sizeof_value a \<longleftrightarrow> size_max div sizeof_value a < n"
    using assms(1) by (simp add: div_less_iff_less_mult)
  have al: "0 < alignment a" using assms(2) by simp
  have ok: "\<exists>p. fst (AlignedAllocator_allocate a n w) = Returns p \<and> p \<noteq> 0 \<and> alignment a dvd p
         \<and> blocks (snd (AlignedAllocator_allocate a n w)) p = Some (replicate n None)
         \<and> avail (snd (AlignedAllocator_allocate a n w)) = avail w - n * sizeof_value a"
    if "n \<le> size_max div sizeof_value a" and "n * sizeof_value a \<le> avail w"
    using alloc_addr_pos [OF al, of w] alloc_addr_aligned [OF assms(2), of w]
    by (simp add: allocate_success [OF that])
  show ?thesis
    using ov ok by (simp add: allocate_overflow allocate_paths [symmetric] allocate_exhausted)
qed

theorem AlignedAllocator_allocate_overflow_witness:
  "AlignedAllocator_allocate \<lparr>sizeof_value = 4, alignment = 64\<rparr> 3 (init_world 1000 :: nat world)
     = as_array 3 (operator_new_aligned 12 64 (init_world 1000))
   \<and> AlignedAllocator_allocate \<lparr>sizeof_value = 4, alignment = 64\<rparr> (2 ^ 62) (init_world 1000 :: nat world)
     = (Throws bad_alloc, init_world 1000)"
  using AlignedAllocator_allocate_overflow [of "\<lparr>sizeof_value = 4, alignment = 64\<rparr>" 6 3 "init_world 1000 :: nat world"]
    AlignedAllocator_allocate_overflow [of "\<lparr>sizeof_value = 4, alignment = 64\<rparr>" 6 "2 ^ 62" "init_world 1000 :: nat world"]
  by (simp add: size_max_def DEFAULT_NEW_ALIGNMENT_def)

section \<open>Element access\<close>

text \<open>
  C4 (as amended). On an array whose storage pointer is not null, of any size \<open>n\<close>
  including zero, \<open>operator[]\<close> and \<open>at\<close> both throw \<open>std::out_of_range\<close> for every index
  \<open>i >= n\<close>, with the message \<open>elt i, size n\<close>. On an array in the empty state (null
  pointer) both throw a failure of another kind, \<open>std::domain_error\<close> with the message
  \<open>uninitialized DynArray\<close>, which holds neither index nor size. For \<open>i < n\<close> both return
  the slot at exactly \<open>i\<close>: no index is clamped or wrapped.
\<close>

theorem DynArray_bounds_checking:
  "(mem_f (objs w this) \<noteq> 0 \<and> n_f (objs w this) \<le> i \<longrightarrow>
      DynArray_index this i w =
        Throws (out_of_range (''elt '' @ to_string i @ '', size '' @ to_string (n_f (objs w this))))
      \<and> DynArray_at this i w = DynArray_index this i w)
   \<and> (mem_f (objs w this) = 0 \<longrightarrow>
      DynArray_index this i w = Throws (domain_error ''uninitialized DynArray'')
      \<and> DynArray_at this i w = DynArray_index this i w)
   \<and> (mem_f (objs w this) \<noteq> 0 \<and> i < n_f (objs w this) \<longrightarrow>
      DynArray_index this i w = Returns (mem_f (objs w this), i)
      \<and> DynArray_at this i w = DynArray_index this i w)"
  by (simp add: DynArray_index_def DynArray_at_def check_range_def)

theorem DynArray_bounds_checking_witness:
  "DynArray_index 0 5 sevens = Throws (out_of_range ''elt 5, size 2'')
   \<and> DynArray_at 0 5 sevens = Throws (out_of_range ''elt 5, size 2'')
   \<and> DynArray_index 0 5 moved_from = Throws (domain_error ''uninitialized DynArray'')
   \<and> DynArray_at 0 5 moved_from = Throws (domain_error ''uninitialized DynArray'')
   \<and> DynArray_index 0 1 sevens = Returns (16, 1)
   \<and> DynArray_at 0 1 sevens = Returns (16, 1)"
  using DynArray_bounds_checking [of sevens 0 5] DynArray_bounds_checking [of moved_from 0 5]
    DynArray_bounds_checking [of sevens 0 1]
  by (simp add: sevens_0 moved_from_0 to_string_5 to_string_2)

text \<open>
  Access in the empty state is not folded into the out-of-range kind: a moved-from array
  is in the empty state, and indexing it leaves by \<open>std::domain_error\<close>, not by
  \<open>std::out_of_range\<close>.
\<close>

theorem empty_state_access_not_out_of_range:
  "empty_state 0 moved_from
   \<and> DynArray_index 0 5 moved_from = Throws (domain_error ''uninitialized DynArray'')
   \<and> \<not> is_out_of_range (DynArray_index 0 5 moved_from)
   \<and> \<not> is_out_of_range (DynArray_at 0 5 moved_from)"
  by (simp add: moved_from_0 empty_state_def is_out_of_range_def
      DynArray_index_def DynArray_at_def check_range_def)

section \<open>Destruction and release\<close>

lemma world_blocks_same: "blocks w p = Some sl \<Longrightarrow> w\<lparr>blocks := (blocks w)(p \<mapsto> sl)\<rparr> = w"
  by (simp add: map_upd_triv)

lemma destroy_loop_live:
  "blocks w p = Some sl \<Longrightarrow> i \<le> n \<Longrightarrow> n \<le> length sl \<Longrightarrow>
   (\<And>j. i \<le> j \<Longrightarrow> j < n \<Longrightarrow> sl ! j \<noteq> None) \<Longrightarrow>
   destroy_loop p i n w =
     (Returns (),
      w\<lparr>blocks := (blocks w)(p \<mapsto> take i sl @ replicate (n - i) None @ drop n sl),
        dtors := dtors w + (n - i)\<rparr>)"
proof (induction k \<equiv> "n - i" arbitrary: i w sl)
  case 0
  then have eq: "i = n" by simp
  have e: "take i sl @ replicate (n - i) None @ drop n sl = sl"
    using eq by simp
  have dl: "destroy_loop p i n w = (Returns (), w)"
    using eq by (simp add: destroy_loop.simps)
  have b: "(blocks w)(p \<mapsto> sl) = blocks w"
    using "0.prems"(1) by (simp add: map_upd_triv)
  have r: "w\<lparr>blocks := blocks w, dtors := dtors w + (n - i)\<rparr> = w"
    using eq by simp
  show ?case
    by (simp only: dl e b r)
next
  case (Suc k)
  then have lt: "i < n" by simp
  let ?w' = "w\<lparr>blocks := (blocks w)(p \<mapsto> sl[i := None]), dtors := dtors w + 1\<rparr>"
  have d: "destroy p i w = (Returns (), ?w')"
    using Suc.prems lt by (simp add: destroy_def)
  have ih: "destroy_loop p (Suc i) n ?w' =
     (Returns (), ?w'\<lparr>blocks := (blocks ?w')(p \<mapsto> take (Suc i) (sl[i := None])
        @ replicate (n - Suc i) None @ drop n (sl[i := None])),
        dtors := dtors ?w' + (n - Suc i)\<rparr>)"
  proof (rule Suc.hyps(1))
    show "k = n - Suc i" using Suc.hyps(2) by simp
    show "blocks ?w' p = Some (sl[i := None])" by simp
    show "Suc i \<le> n" using lt by simp
    show "n \<le> length (sl[i := None])" using Suc.prems(3) by simp
    show "\<And>j. Suc i \<le> j \<Longrightarrow> j < n \<Longrightarrow> sl[i := None] ! j \<noteq> None"
      using Suc.prems(4) by simp
  qed
  have t: "take (Suc i) (sl[i := None]) = take i sl @ [None]"
    using lt Suc.prems(3) by (simp add: take_Suc_conv_app_nth)
  have dr: "drop n (sl[i := None]) = drop n sl"
    using lt by simp
  have r: "replicate (n - i) (None :: 'a option) = None # replicate (n - Suc i) None"
    using lt by (simp add: Suc_diff_Suc flip: replicate_Suc)
  have fin: "?w'\<lparr>blocks := (blocks ?w')(p \<mapsto> take (Suc i) (sl[i := None])
        @ replicate (n - Suc i) None @ drop n (sl[i := None])),
        dtors := dtors ?w' + (n - Suc i)\<rparr>
      = w\<lparr>blocks := (blocks w)(p \<mapsto> take i sl @ replicate (n - i) None @ drop n sl),
        dtors := dtors w + (n - i)\<rparr>"
    using lt by (simp add: t dr r)
  have step: "destroy_loop p i n w = destroy_loop p (Suc i) n ?w'"
    using lt by (subst destroy_loop.simps) (simp add: d)
  show ?case
    by (simp only: step ih fin)
qed

lemma destroy_loop_all:
  "blocks w p = Some sl \<Longrightarrow> list_all (\<lambda>x. x \<noteq> None) sl \<Longrightarrow>
   destroy_loop p 0 (length sl) w =
     (Returns (),
      w\<lparr>blocks := (blocks w)(p \<mapsto> replicate (length sl) None), dtors := dtors w + length sl\<rparr>)"
  using destroy_loop_live [of w p sl 0 "length sl"]
  by (simp add: list_all_length)

lemma DynArray_deallocate_inv:
  assumes "DynArray_inv this w"
  shows "DynArray_deallocate this w =
     (if mem_f (objs w this) = 0 then (Returns (), w)
      else (Returns (),
            w\<lparr>blocks := (blocks w)(mem_f (objs w this) := None),
              avail := avail w + (n_f (objs w this) * sizeof_value (alloc_f (objs w this))) mod 2 ^ 64,
              dtors := dtors w + n_f (objs w this)\<rparr>))"
proof (cases "mem_f (objs w this) = 0")
  case True
  then show ?thesis by (simp add: DynArray_deallocate_def)
next
  case False
  with assms obtain sl where sl: "blocks w (mem_f (objs w this)) = Some sl"
      "length sl = n_f (objs w this)" "list_all (\<lambda>x. x \<noteq> None) sl"
    by (auto simp: DynArray_inv_def empty_state_def split: option.splits)
  have "destroy_loop (mem_f (objs w this)) 0 (n_f (objs w this)) w =
     (Returns (),
      w\<lparr>blocks := (blocks w)(mem_f (objs w this) \<mapsto> replicate (n_f (objs w this)) None),
        dtors := dtors w + n_f (objs w this)\<rparr>)"
    using destroy_loop_all [OF sl(1) sl(3)] sl(2) by simp
  then show ?thesis
    using False
    by (simp add: DynArray_deallocate_def AlignedAllocator_deallocate_def operator_delete_def
        operator_delete_aligned_def Let_def)
qed

section \<open>Move construction and move assignment\<close>

lemma DynArray_move_result:
  "this \<noteq> that \<Longrightarrow>
   DynArray_move this that w =
     (Returns (),
      w\<lparr>objs := (objs w)
          (this := (objs w this)\<lparr>alloc_f := alloc_f (objs w that), mem_f := mem_f (objs w that),
                                 n_f := n_f (objs w that)\<rparr>,
           that := (objs w that)\<lparr>mem_f := 0, n_f := 0\<rparr>)\<rparr>)"
  by (simp add: DynArray_move_def set_alloc_def set_mem_def set_n_def Let_def fun_upd_twist)

lemma DynArray_move_assign_unfold:
  "fst (DynArray_deallocate this w) = Returns () \<Longrightarrow>
   DynArray_move_assign this that w = DynArray_move this that (snd (DynArray_deallocate this w))"
  by (cases "DynArray_deallocate this w")
     (simp add: DynArray_move_assign_def DynArray_move_def)

text \<open>
  C6. Moving array \<open>that\<close> into a distinct object \<open>this\<close>. Move construction hands over
  pointer and count and touches nothing else: no block changes, nothing is allocated, no
  element is constructed or destroyed. Afterwards \<open>that\<close> is in the empty state, its
  \<open>size()\<close> is zero and \<open>front()\<close> on it throws the empty-state failure; \<open>this\<close> holds the
  elements \<open>that\<close> held, in order. Move assignment, for a destination that satisfies the
  structural invariant and owns a block of its own, first destroys the destination's
  \<open>n_\<close> elements and releases its block (\<open>deallocate()\<close> returns, and that block is gone),
  then does the same handover: every other block is untouched and no element is
  constructed.
\<close>

theorem DynArray_move_semantics:
  assumes "this \<noteq> that"
  shows
   "fst (DynArray_move this that w) = Returns ()
    \<and> blocks (snd (DynArray_move this that w)) = blocks w
    \<and> brk (snd (DynArray_move this that w)) = brk w
    \<and> avail (snd (DynArray_move this that w)) = avail w
    \<and> ctors (snd (DynArray_move this that w)) = ctors w
    \<and> dtors (snd (DynArray_move this that w)) = dtors w
    \<and> empty_state that (snd (DynArray_move this that w))
    \<and> DynArray_size that (snd (DynArray_move this that w)) = 0
    \<and> DynArray_front that (snd (DynArray_move this that w))
          = Throws (domain_error ''uninitialized DynArray'')
    \<and> mem_f (objs (snd (DynArray_move this that w)) this) = mem_f (objs w that)
    \<and> n_f (objs (snd (DynArray_move this that w)) this) = n_f (objs w that)
    \<and> elements this (snd (DynArray_move this that w)) = elements that w
    \<and> (DynArray_inv this w
          \<and> (mem_f (objs w this) = 0 \<or> mem_f (objs w this) \<noteq> mem_f (objs w that)) \<longrightarrow>
        fst (DynArray_deallocate this w) = Returns ()
        \<and> (mem_f (objs w this) \<noteq> 0 \<longrightarrow>
              blocks (snd (DynArray_deallocate this w)) (mem_f (objs w this)) = None)
        \<and> DynArray_move_assign this that w
              = DynArray_move this that (snd (DynArray_deallocate this w))
        \<and> fst (DynArray_move_assign this that w) = Returns ()
        \<and> blocks (snd (DynArray_move_assign this that w)) = blocks (snd (DynArray_deallocate this w))
        \<and> (\<forall>q. q \<noteq> mem_f (objs w this) \<longrightarrow>
              blocks (snd (DynArray_move_assign this that w)) q = blocks w q)
        \<and> brk (snd (DynArray_move_assign this that w)) = brk w
        \<and> ctors (snd (DynArray_move_assign this that w)) = ctors w
        \<and> dtors (snd (DynArray_move_assign this that w)) = dtors w + n_f (objs w this)
        \<and> empty_state that (snd (DynArray_move_assign this that w))
        \<and> DynArray_size that (snd (DynArray_move_assign this that w)) = 0
        \<and> DynArray_front that (snd (DynArray_move_assign this that w))
              = Throws (domain_error ''uninitialized DynArray'')
        \<and> mem_f (objs (snd (DynArray_move_assign this that w)) this) = mem_f (objs w that)
        \<and> n_f (objs (snd (DynArray_move_assign this that w)) this) = n_f (objs w that)
        \<and> elements this (snd (DynArray_move_assign this that w)) = elements that w)"
proof -
  have mv: "fst (DynArray_move this that w) = Returns ()
    \<and> blocks (snd (DynArray_move this that w)) = blocks w
    \<and> brk (snd (DynArray_move this that w)) = brk w
    \<and> avail (snd (DynArray_move this that w)) = avail w
    \<and> ctors (snd (DynArray_move this that w)) = ctors w
    \<and> dtors (snd (DynArray_move this that w)) = dtors w
    \<and> empty_state that (snd (DynArray_move this that w))
    \<and> DynArray_size that (snd (DynArray_move this that w)) = 0
    \<and> DynArray_front that (snd (DynArray_move this that w))
          = Throws (domain_error ''uninitialized DynArray'')
    \<and> mem_f (objs (snd (DynArray_move this that w)) this) = mem_f (objs w that)
    \<and> n_f (objs (snd (DynArray_move this that w)) this) = n_f (objs w that)
    \<and> elements this (snd (DynArray_move this that w)) = elements that w" for w :: "'a world"
    using assms
    by (simp add: DynArray_move_result empty_state_def DynArray_size_def DynArray_front_def
        DynArray_empty_def elements_def cong: option.case_cong)
  have asg: "fst (DynArray_deallocate this w) = Returns ()
        \<and> (mem_f (objs w this) \<noteq> 0 \<longrightarrow>
              blocks (snd (DynArray_deallocate this w)) (mem_f (objs w this)) = None)
        \<and> DynArray_move_assign this that w
              = DynArray_move this that (snd (DynArray_deallocate this w))
        \<and> fst (DynArray_move_assign this that w) = Returns ()
        \<and> blocks (snd (DynArray_move_assign this that w)) = blocks (snd (DynArray_deallocate this w))
        \<and> (\<forall>q. q \<noteq> mem_f (objs w this) \<longrightarrow>
              blocks (snd (DynArray_move_assign this that w)) q = blocks w q)
        \<and> brk (snd (DynArray_move_assign this that w)) = brk w
        \<and> ctors (snd (DynArray_move_assign this that w)) = ctors w
        \<and> dtors (snd (DynArray_move_assign this that w)) = dtors w + n_f (objs w this)
        \<and> empty_state that (snd (DynArray_move_assign this that w))
        \<and> DynArray_size that (snd (DynArray_move_assign this that w)) = 0
        \<and> DynArray_front that (snd (DynArray_move_assign this that w))
              = Throws (domain_error ''uninitialized DynArray'')
        \<and> mem_f (objs (snd (DynArray_move_assign this that w)) this) = mem_f (objs w that)
        \<and> n_f (objs (snd (DynArray_move_assign this that w)) this) = n_f (objs w that)
        \<and> elements this (snd (DynArray_move_assign this that w)) = elements that w"
    if inv: "DynArray_inv this w"
      and own: "mem_f (objs w this) = 0 \<or> mem_f (objs w this) \<noteq> mem_f (objs w that)"
  proof -
    let ?w0 = "snd (DynArray_deallocate this w)"
    have d: "fst (DynArray_deallocate this w) = Returns ()"
      by (simp add: DynArray_deallocate_inv [OF inv])
    have ua: "DynArray_move_assign this that w = DynArray_move this that ?w0"
      using d by (rule DynArray_move_assign_unfold)
    have o: "objs ?w0 = objs w" and b: "brk ?w0 = brk w" and c: "ctors ?w0 = ctors w"
      by (simp_all add: DynArray_deallocate_inv [OF inv])
    have dt: "dtors ?w0 = dtors w + n_f (objs w this)"
      using inv by (auto simp: DynArray_deallocate_inv [OF inv] DynArray_inv_def empty_state_def)
    have bl: "blocks ?w0 = (if mem_f (objs w this) = 0 then blocks w
                            else (blocks w)(mem_f (objs w this) := None))"
      by (simp add: DynArray_deallocate_inv [OF inv])
    have el: "elements that ?w0 = elements that w"
      using own by (auto simp: elements_def o bl cong: option.case_cong)
    show ?thesis
      using mv [of ?w0] d el by (simp add: ua o b c dt bl)
  qed
  show ?thesis using mv [of w] asg by blast
qed

theorem DynArray_move_semantics_witness:
  "elements 2 (snd (DynArray_move 2 1 two_arrays)) = [Some 7, Some 9]
   \<and> empty_state 1 (snd (DynArray_move 2 1 two_arrays))
   \<and> elements 0 (snd (DynArray_move_assign 0 1 two_arrays)) = [Some 7, Some 9]
   \<and> empty_state 1 (snd (DynArray_move_assign 0 1 two_arrays))
   \<and> blocks (snd (DynArray_move_assign 0 1 two_arrays)) 16 = None"
proof -
  have a: "(2::nat) \<noteq> 1" and b: "(0::nat) \<noteq> 1"
    by simp_all
  have pre: "DynArray_inv 0 two_arrays
      \<and> (mem_f (objs two_arrays 0) = 0 \<or> mem_f (objs two_arrays 0) \<noteq> mem_f (objs two_arrays 1))"
    using two_arrays_inv two_arrays_mem by simp
  have m1: "elements 2 (snd (DynArray_move 2 1 two_arrays)) = elements 1 two_arrays"
      "empty_state 1 (snd (DynArray_move 2 1 two_arrays))"
    using DynArray_move_semantics [OF a, of two_arrays] by blast+
  have m2: "elements 0 (snd (DynArray_move_assign 0 1 two_arrays)) = elements 1 two_arrays"
      "empty_state 1 (snd (DynArray_move_assign 0 1 two_arrays))"
      "mem_f (objs two_arrays 0) \<noteq> 0 \<longrightarrow>
         blocks (snd (DynArray_deallocate 0 two_arrays)) (mem_f (objs two_arrays 0)) = None"
      "blocks (snd (DynArray_move_assign 0 1 two_arrays))
         = blocks (snd (DynArray_deallocate 0 two_arrays))"
    using DynArray_move_semantics [OF b, of two_arrays] pre by blast+
  show ?thesis
    using m1 m2 two_arrays_mem two_arrays_elements by simp
qed

section \<open>Construction from a range\<close>

lemma deref_other_block:
  "blocks w0 p = None \<Longrightarrow> deref r w0 = Returns x \<Longrightarrow> blocks w = (blocks w0)(p \<mapsto> sl) \<Longrightarrow>
   deref r w = Returns x"
  by (cases r) (auto simp: deref_def split: option.splits if_splits)

lemma uninitialized_copy_from_throws:
  "blocks w0 p = None \<Longrightarrow>
   blocks w = (blocks w0)(p \<mapsto> map Some vs @ replicate (length rs) None) \<Longrightarrow>
   length vs = cur \<Longrightarrow>
   list_all2 (\<lambda>r x. deref r w0 = Returns x) rs xs \<Longrightarrow>
   k < length xs \<Longrightarrow> cp (xs ! k) = None \<Longrightarrow> (\<And>j. j < k \<Longrightarrow> cp (xs ! j) \<noteq> None) \<Longrightarrow>
   uninitialized_copy_from cp rs p cur w =
     (Throws element_failure,
      w\<lparr>blocks := (blocks w0)(p \<mapsto> replicate (cur + length rs) None),
        ctors := ctors w + k, dtors := dtors w + (cur + k)\<rparr>)"
proof (induction rs arbitrary: xs k vs cur w)
  case Nil
  then show ?case by simp
next
  case (Cons r rs)
  from Cons.prems(4) obtain x xs' where xs: "xs = x # xs'"
      and rx: "deref r w0 = Returns x"
      and rest: "list_all2 (\<lambda>r x. deref r w0 = Returns x) rs xs'"
    by (auto simp: list_all2_Cons1)
  let ?sl = "map Some vs @ replicate (length (r # rs)) None"
  have bw: "blocks w p = Some ?sl"
    using Cons.prems(2) by simp
  have dr: "deref r w = Returns x"
    using Cons.prems(1) rx Cons.prems(2) by (rule deref_other_block)
  have len: "cur < length ?sl"
    using Cons.prems(3) by simp
  show ?case
  proof (cases k)
    case 0
    then have cx: "cp x = None"
      using Cons.prems(6) xs by simp
    have c: "construct p cur (cp x) w = (Throws element_failure, w)"
      using bw len by (simp add: construct_def cx)
    have dl: "destroy_loop p 0 cur w =
       (Returns (),
        w\<lparr>blocks := (blocks w)(p \<mapsto> take 0 ?sl @ replicate (cur - 0) None @ drop cur ?sl),
          dtors := dtors w + (cur - 0)\<rparr>)"
    proof (rule destroy_loop_live [OF bw])
      show "0 \<le> cur" by simp
      show "cur \<le> length ?sl" using len by simp
      show "\<And>j. 0 \<le> j \<Longrightarrow> j < cur \<Longrightarrow> ?sl ! j \<noteq> None"
        using Cons.prems(3) by (simp add: nth_append)
    qed
    have sl': "take 0 ?sl @ replicate (cur - 0) None @ drop cur ?sl
        = replicate (cur + length (r # rs)) None"
      using Cons.prems(3) by (simp add: replicate_add replicate_append_same)
    have bu: "(blocks w)(p \<mapsto> X) = (blocks w0)(p \<mapsto> X)" for X
      by (simp only: Cons.prems(2) fun_upd_upd)
    have d: "destroy_loop p 0 cur w =
       (Returns (),
        w\<lparr>blocks := (blocks w0)(p \<mapsto> replicate (cur + length (r # rs)) None),
          dtors := dtors w + (cur - 0)\<rparr>)"
      using dl by (simp only: sl' bu)
    have fin: "w\<lparr>blocks := (blocks w0)(p \<mapsto> replicate (cur + length (r # rs)) None),
          dtors := dtors w + (cur - 0)\<rparr>
        = w\<lparr>blocks := (blocks w0)(p \<mapsto> replicate (cur + length (r # rs)) None),
          ctors := ctors w + k, dtors := dtors w + (cur + k)\<rparr>"
      using 0 by simp
    show ?thesis
      by (simp only: uninitialized_copy_from.simps dr c d fin outcome.case prod.case)
  next
    case (Suc k')
    have "cp (xs ! 0) \<noteq> None"
      using Cons.prems(7) [of 0] Suc by simp
    then obtain v where cx: "cp x = Some v"
      using xs by auto
    let ?w' = "w\<lparr>blocks := (blocks w)(p \<mapsto> ?sl[cur := Some v]), ctors := ctors w + 1\<rparr>"
    have c: "construct p cur (cp x) w = (Returns (), ?w')"
      using bw len by (simp add: construct_def cx)
    have upd: "?sl[cur := Some v] = map Some (vs @ [v]) @ replicate (length rs) None"
      using Cons.prems(3) by (simp add: list_update_append)
    have ih: "uninitialized_copy_from cp rs p (Suc cur) ?w' =
       (Throws element_failure,
        ?w'\<lparr>blocks := (blocks w0)(p \<mapsto> replicate (Suc cur + length rs) None),
          ctors := ctors ?w' + k', dtors := dtors ?w' + (Suc cur + k')\<rparr>)"
    proof (rule Cons.IH [OF Cons.prems(1) _ _ rest])
      have "(blocks w)(p \<mapsto> X) = (blocks w0)(p \<mapsto> X)" for X
        by (simp only: Cons.prems(2) fun_upd_upd)
      then show "blocks ?w' = (blocks w0)(p \<mapsto> map Some (vs @ [v]) @ replicate (length rs) None)"
        using upd by simp
      show "length (vs @ [v]) = Suc cur" using Cons.prems(3) by simp
      show "k' < length xs'" using Cons.prems(5) xs Suc by simp
      show "cp (xs' ! k') = None" using Cons.prems(6) xs Suc by simp
      show "\<And>j. j < k' \<Longrightarrow> cp (xs' ! j) \<noteq> None"
        using Cons.prems(7) [of "Suc j" for j] xs Suc by simp
    qed
    have "?w'\<lparr>blocks := (blocks w0)(p \<mapsto> replicate (Suc cur + length rs) None),
          ctors := ctors ?w' + k', dtors := dtors ?w' + (Suc cur + k')\<rparr>
        = w\<lparr>blocks := (blocks w0)(p \<mapsto> replicate (cur + length (r # rs)) None),
          ctors := ctors w + k, dtors := dtors w + (cur + k)\<rparr>"
      using Suc by simp
    then show ?thesis
      by (simp only: uninitialized_copy_from.simps dr c ih outcome.case prod.case)
  qed
qed

text \<open>
  C7. Constructing an array from a range whose storage can be allocated, when the copy
  constructor throws on the \<open>k\<close>-th element and on none before it: the constructor leaves
  by that exception, and the free store is as before the call: the same live blocks with
  the same contents and the same number of bytes available, so the constructed prefix has
  been destroyed and the block released. The outcome is the exception and not undefined
  behaviour, so no destructor ran on a slot that held no object.
\<close>

theorem DynArray_range_exception_safety:
  assumes wf: "heap_wf w"
    and al: "0 < alignment a"
    and fits: "length rs \<le> size_max div sizeof_value a" "length rs * sizeof_value a \<le> avail w"
    and range: "list_all2 (\<lambda>r x. deref r w = Returns x) rs xs"
    and k: "k < length xs" "cp (xs ! k) = None" "\<forall>j<k. cp (xs ! j) \<noteq> None"
  shows "fst (DynArray_range this rs a cp w) = Throws element_failure
       \<and> blocks (snd (DynArray_range this rs a cp w)) = blocks w
       \<and> avail (snd (DynArray_range this rs a cp w)) = avail w
       \<and> ctors (snd (DynArray_range this rs a cp w)) = ctors w + k
       \<and> dtors (snd (DynArray_range this rs a cp w)) = dtors w + k"
proof -
  let ?p = "alloc_addr a w"
  let ?n = "length rs"
  let ?w1 = "w\<lparr>objs := (objs w)(this := \<lparr>alloc_f = a, mem_f = 0, n_f = ?n\<rparr>)\<rparr>"
  let ?w2 = "?w1\<lparr>brk := ?p + max 1 (?n * sizeof_value a), avail := avail w - ?n * sizeof_value a,
                 blocks := (blocks w)(?p \<mapsto> replicate ?n None)\<rparr>"
  let ?w3 = "set_mem this ?p ?w2"
  have fresh: "blocks w ?p = None"
    using wf alloc_addr_ge [OF al, of w] by (auto simp: heap_wf_def)
  have p1: "alloc_addr a ?w1 = ?p"
    by (simp add: alloc_addr_def)
  have alloc: "AlignedAllocator_allocate a ?n ?w1 = (Returns ?p, ?w2)"
    using allocate_success [of ?n a ?w1] fits by (simp add: p1)
  let ?w4 = "?w3\<lparr>blocks := (blocks w)(?p \<mapsto> replicate (0 + ?n) None),
                  ctors := ctors ?w3 + k, dtors := dtors ?w3 + (0 + k)\<rparr>"
  have copy: "uninitialized_copy_from cp rs ?p 0 ?w3 = (Throws element_failure, ?w4)"
  proof (rule uninitialized_copy_from_throws [where ?w0.0 = w and vs = "[]" and xs = xs and k = k])
    show "blocks w ?p = None" by (rule fresh)
    show "list_all2 (\<lambda>r x. deref r w = Returns x) rs xs" by (rule range)
    show "k < length xs" by (rule k(1))
    show "cp (xs ! k) = None" by (rule k(2))
    show "blocks ?w3 = (blocks w)(?p \<mapsto> map Some [] @ replicate ?n None)"
      by (simp add: set_mem_def)
    show "length [] = (0::nat)" by simp
    show "\<And>j. j < k \<Longrightarrow> cp (xs ! j) \<noteq> None" using k(3) by simp
  qed
  have bytes: "(?n * sizeof_value a) mod 2 ^ 64 = ?n * sizeof_value a"
    using fits(1) by (rule bytes_no_wrap)
  have free: "AlignedAllocator_deallocate a ?p ?n ?w4
      = (Returns (), ?w4\<lparr>blocks := blocks w, avail := avail w\<rparr>)"
    using fits(2) bytes fun_upd_idem [of "blocks w" ?p None, OF fresh]
    by (simp add: AlignedAllocator_deallocate_def operator_delete_def operator_delete_aligned_def
        set_mem_def Let_def)
  have f1: "alloc_f (objs ?w1 this) = a" "n_f (objs ?w1 this) = ?n"
    by simp_all
  have f3: "mem_f (objs ?w3 this) = ?p"
    by (simp add: set_mem_def)
  have f4: "alloc_f (objs ?w4 this) = a" "mem_f (objs ?w4 this) = ?p" "n_f (objs ?w4 this) = ?n"
    by (simp_all add: set_mem_def)
  have "DynArray_range this rs a cp w = (Throws element_failure, ?w4\<lparr>blocks := blocks w, avail := avail w\<rparr>)"
    by (simp only: DynArray_range_def Let_def f1 alloc f3 uninitialized_copy_def copy f4 free
        prod.case outcome.case)
  then show ?thesis by (simp add: set_mem_def)
qed

lemma sevens_wf: "heap_wf sevens"
  by (simp add: heap_wf_def sevens_blocks sevens_brk_avail)

theorem DynArray_range_exception_safety_witness:
  "fst (DynArray_range 1 [Val 7, Val 9] int_alloc copy_throws_on_9 sevens) = Throws element_failure
   \<and> blocks (snd (DynArray_range 1 [Val 7, Val 9] int_alloc copy_throws_on_9 sevens)) = blocks sevens
   \<and> avail (snd (DynArray_range 1 [Val 7, Val 9] int_alloc copy_throws_on_9 sevens)) = avail sevens
   \<and> ctors (snd (DynArray_range 1 [Val 7, Val 9] int_alloc copy_throws_on_9 sevens)) = ctors sevens + 1
   \<and> dtors (snd (DynArray_range 1 [Val 7, Val 9] int_alloc copy_throws_on_9 sevens)) = dtors sevens + 1"
proof (rule DynArray_range_exception_safety [where xs = "[7, 9]" and k = 1])
  show "heap_wf sevens" by (rule sevens_wf)
  show "0 < alignment int_alloc" by (simp add: int_alloc_def)
  show "length [Val 7, Val 9 :: nat src] \<le> size_max div sizeof_value int_alloc"
    by (simp add: int_alloc_def size_max_def)
  show "length [Val 7, Val 9 :: nat src] * sizeof_value int_alloc \<le> avail sevens"
    by (simp add: int_alloc_def sevens_brk_avail)
  show "list_all2 (\<lambda>r x. deref r sevens = Returns x) [Val 7, Val 9] [7, 9]"
    by (simp add: deref_def)
  show "1 < length [7, 9 :: nat]" by simp
  show "copy_throws_on_9 ([7, 9] ! 1) = None" by (simp add: copy_throws_on_9_def)
  show "\<forall>j<1. copy_throws_on_9 ([7, 9] ! j) \<noteq> None" by (simp add: copy_throws_on_9_def)
qed

section \<open>Construction and reset when nothing fails\<close>

text \<open>
  When the storage can be allocated and every element construction succeeds, the sized
  constructor and \<open>reset\<close> return with the structural invariant established, for every
  size including zero, and \<open>reset\<close> has destroyed exactly the elements the array held.
\<close>

lemma construct_loop_all:
  "blocks w p = Some (map Some vs @ replicate (n - i) None) \<Longrightarrow> length vs = i \<Longrightarrow> i \<le> n \<Longrightarrow>
   (\<And>j. i \<le> j \<Longrightarrow> j < n \<Longrightarrow> ctor j \<noteq> None) \<Longrightarrow>
   construct_loop ctor p i n w =
     (Returns (),
      w\<lparr>blocks := (blocks w)(p \<mapsto> map Some (vs @ map (\<lambda>j. the (ctor j)) [i..<n])),
        ctors := ctors w + (n - i)\<rparr>)"
proof (induction k \<equiv> "n - i" arbitrary: i w vs)
  case 0
  then have eq: "i = n" by simp
  have cl: "construct_loop ctor p i n w = (Returns (), w)"
    using eq by (simp add: construct_loop.simps)
  have b: "(blocks w)(p \<mapsto> map Some (vs @ map (\<lambda>j. the (ctor j)) [i..<n])) = blocks w"
    using "0.prems"(1) eq by (simp add: map_upd_triv)
  have r: "w\<lparr>blocks := blocks w, ctors := ctors w + (n - i)\<rparr> = w"
    using eq by simp
  show ?case
    by (simp only: cl b r)
next
  case (Suc k)
  then have lt: "i < n" by simp
  obtain v where v: "ctor i = Some v"
    using Suc.prems(4) [of i] lt by auto
  let ?sl = "map Some vs @ replicate (n - i) None"
  let ?w' = "w\<lparr>blocks := (blocks w)(p \<mapsto> ?sl[i := Some v]), ctors := ctors w + 1\<rparr>"
  have c: "construct p i (ctor i) w = (Returns (), ?w')"
    using Suc.prems(1,2) lt by (simp add: construct_def v)
  have r: "replicate (n - i) (None :: 'a option) = None # replicate (n - Suc i) None"
    using lt by (simp add: Suc_diff_Suc flip: replicate_Suc)
  have upd: "?sl[i := Some v] = map Some (vs @ [v]) @ replicate (n - Suc i) None"
    using Suc.prems(2) by (simp add: list_update_append r)
  have ih: "construct_loop ctor p (Suc i) n ?w' =
     (Returns (),
      ?w'\<lparr>blocks := (blocks ?w')(p \<mapsto> map Some ((vs @ [v]) @ map (\<lambda>j. the (ctor j)) [Suc i..<n])),
        ctors := ctors ?w' + (n - Suc i)\<rparr>)"
  proof (rule Suc.hyps(1))
    show "k = n - Suc i" using Suc.hyps(2) by simp
    show "blocks ?w' p = Some (map Some (vs @ [v]) @ replicate (n - Suc i) None)"
      using upd by simp
    show "length (vs @ [v]) = Suc i" using Suc.prems(2) by simp
    show "Suc i \<le> n" using lt by simp
    show "\<And>j. Suc i \<le> j \<Longrightarrow> j < n \<Longrightarrow> ctor j \<noteq> None"
      using Suc.prems(4) by simp
  qed
  have fin: "?w'\<lparr>blocks := (blocks ?w')(p \<mapsto> map Some ((vs @ [v]) @ map (\<lambda>j. the (ctor j)) [Suc i..<n])),
        ctors := ctors ?w' + (n - Suc i)\<rparr>
      = w\<lparr>blocks := (blocks w)(p \<mapsto> map Some (vs @ map (\<lambda>j. the (ctor j)) [i..<n])),
        ctors := ctors w + (n - i)\<rparr>"
    using lt v by (simp add: upt_conv_Cons)
  have step: "construct_loop ctor p i n w = construct_loop ctor p (Suc i) n ?w'"
    using lt by (subst construct_loop.simps) (simp add: c)
  show ?case
    by (simp only: step ih fin)
qed

lemma DynArray_sized_establishes_inv:
  assumes al: "0 < alignment a"
    and fits: "n \<le> size_max div sizeof_value a" "n * sizeof_value a \<le> avail w"
    and ok: "\<forall>j<n. ctor j \<noteq> None"
  shows "fst (DynArray_sized this n a ctor w) = Returns ()
       \<and> DynArray_inv this (snd (DynArray_sized this n a ctor w))
       \<and> DynArray_size this (snd (DynArray_sized this n a ctor w)) = n
       \<and> elements this (snd (DynArray_sized this n a ctor w)) = map ctor [0..<n]"
proof -
  let ?p = "alloc_addr a w"
  let ?w1 = "w\<lparr>objs := (objs w)(this := \<lparr>alloc_f = a, mem_f = 0, n_f = n\<rparr>)\<rparr>"
  let ?w2 = "?w1\<lparr>brk := ?p + max 1 (n * sizeof_value a), avail := avail w - n * sizeof_value a,
                 blocks := (blocks w)(?p \<mapsto> replicate n None)\<rparr>"
  let ?w3 = "set_mem this ?p ?w2"
  let ?w4 = "?w3\<lparr>blocks := (blocks ?w3)(?p \<mapsto> map Some ([] @ map (\<lambda>j. the (ctor j)) [0..<n])),
                 ctors := ctors ?w3 + (n - 0)\<rparr>"
  have p1: "alloc_addr a ?w1 = ?p"
    by (simp add: alloc_addr_def)
  have alloc: "AlignedAllocator_allocate a n ?w1 = (Returns ?p, ?w2)"
    using allocate_success [of n a ?w1] fits by (simp add: p1)
  have loop: "construct_loop ctor ?p 0 n ?w3 = (Returns (), ?w4)"
  proof (rule construct_loop_all)
    show "blocks ?w3 ?p = Some (map Some [] @ replicate (n - 0) None)"
      by (simp add: set_mem_def)
    show "length [] = (0::nat)" by simp
    show "0 \<le> n" by simp
    show "\<And>j. 0 \<le> j \<Longrightarrow> j < n \<Longrightarrow> ctor j \<noteq> None" using ok by simp
  qed
  have f1: "alloc_f (objs ?w1 this) = a"
    by simp
  have f3: "mem_f (objs ?w3 this) = ?p"
    by (simp add: set_mem_def)
  have run: "DynArray_sized this n a ctor w = (Returns (), ?w4)"
    by (simp only: DynArray_sized_def Let_def f1 alloc f3 loop prod.case outcome.case)
  have the_ctor: "map (Some \<circ> (\<lambda>j. the (ctor j))) [0..<n] = map ctor [0..<n]"
    using ok by auto
  show ?thesis
    using alloc_addr_pos [OF al, of w] the_ctor ok
    by (auto simp: run DynArray_inv_def empty_state_def DynArray_size_def elements_def set_mem_def
        list_all_iff)
qed

lemma DynArray_reset_establishes_inv:
  assumes inv: "DynArray_inv this w"
    and al: "0 < alignment (alloc_f (objs w this))"
    and fits: "n \<le> size_max div sizeof_value (alloc_f (objs w this))"
      "n * sizeof_value (alloc_f (objs w this)) \<le> avail w"
    and ok: "\<forall>j<n. dctor j \<noteq> None"
  shows "fst (DynArray_reset dctor this n w) = Returns ()
       \<and> DynArray_inv this (snd (DynArray_reset dctor this n w))
       \<and> DynArray_size this (snd (DynArray_reset dctor this n w)) = n
       \<and> elements this (snd (DynArray_reset dctor this n w)) = map dctor [0..<n]
       \<and> dtors (snd (DynArray_reset dctor this n w)) = dtors w + n_f (objs w this)"
proof -
  let ?a = "alloc_f (objs w this)"
  define w1 where "w1 = snd (DynArray_deallocate this w)"
  have d: "DynArray_deallocate this w = (Returns (), w1)"
    by (simp add: w1_def DynArray_deallocate_inv [OF inv])
  have o1: "objs w1 = objs w" and b1: "brk w1 = brk w" and a1: "avail w \<le> avail w1"
    by (simp_all add: w1_def DynArray_deallocate_inv [OF inv])
  have dt1: "dtors w1 = dtors w + n_f (objs w this)"
    using inv
    by (auto simp: w1_def DynArray_deallocate_inv [OF inv] DynArray_inv_def empty_state_def)
  let ?w2 = "set_n this n w1"
  let ?p = "alloc_addr ?a ?w2"
  let ?w3 = "?w2\<lparr>brk := ?p + max 1 (n * sizeof_value ?a), avail := avail ?w2 - n * sizeof_value ?a,
                 blocks := (blocks ?w2)(?p \<mapsto> replicate n None)\<rparr>"
  let ?w4 = "set_mem this ?p ?w3"
  let ?w5 = "?w4\<lparr>blocks := (blocks ?w4)(?p \<mapsto> map Some ([] @ map (\<lambda>j. the (dctor j)) [0..<n])),
                 ctors := ctors ?w4 + (n - 0)\<rparr>"
  have f2: "alloc_f (objs ?w2 this) = ?a" "n_f (objs ?w2 this) = n"
    by (simp_all add: set_n_def o1)
  have av2: "n * sizeof_value ?a \<le> avail ?w2"
    using fits(2) a1 by (simp add: set_n_def)
  have alloc: "AlignedAllocator_allocate ?a n ?w2 = (Returns ?p, ?w3)"
    using allocate_success [OF fits(1) av2] by simp
  have f4: "mem_f (objs ?w4 this) = ?p"
    by (simp add: set_mem_def)
  have loop: "construct_loop dctor ?p 0 n ?w4 = (Returns (), ?w5)"
  proof (rule construct_loop_all)
    show "blocks ?w4 ?p = Some (map Some [] @ replicate (n - 0) None)"
      by (simp add: set_mem_def)
    show "length [] = (0::nat)" by simp
    show "0 \<le> n" by simp
    show "\<And>j. 0 \<le> j \<Longrightarrow> j < n \<Longrightarrow> dctor j \<noteq> None" using ok by simp
  qed
  define w5 where "w5 = ?w5"
  have run: "DynArray_reset dctor this n w = (Returns (), w5)"
    by (simp only: w5_def DynArray_reset_def Let_def d f2 alloc f4 loop prod.case outcome.case)
  have the_ctor: "map (Some \<circ> (\<lambda>j. the (dctor j))) [0..<n] = map dctor [0..<n]"
    using ok by auto
  have pos: "0 < ?p"
    using al by (rule alloc_addr_pos)
  define p where "p = ?p"
  have res: "mem_f (objs w5 this) = p" "n_f (objs w5 this) = n"
      "blocks w5 p = Some (map Some (map (\<lambda>j. the (dctor j)) [0..<n]))"
      "dtors w5 = dtors w + n_f (objs w this)"
    using dt1 by (simp_all add: w5_def p_def set_mem_def set_n_def)
  have "0 < p"
    using pos by (simp add: p_def)
  then show ?thesis
    using the_ctor ok
    by (auto simp: run res DynArray_inv_def empty_state_def DynArray_size_def elements_def
        list_all_iff)
qed

section \<open>Operations that leave a broken array behind\<close>

text \<open>
  C3. The sized constructor, asked for two elements when the second construction throws:
  the exception leaves the constructor, and the block it allocated (address 16, not live
  before the call) stays live with the first element still constructed in it: one
  element has been constructed and none destroyed. Nothing destroys that element or
  releases the block afterwards: the constructor has no handler, and the destructor does
  not run for an object whose constructor threw.
\<close>

theorem sized_constructor_failure_leaks:
  "fst (DynArray_sized 0 2 int_alloc (second_ctor_throws 7) (init_world 1000))
     = Throws element_failure
   \<and> blocks (snd (DynArray_sized 0 2 int_alloc (second_ctor_throws 7) (init_world 1000))) 16
     = Some [Some 7, None]
   \<and> blocks (init_world 1000 :: nat world) 16 = None
   \<and> ctors (snd (DynArray_sized 0 2 int_alloc (second_ctor_throws 7) (init_world 1000))) = 1
   \<and> dtors (snd (DynArray_sized 0 2 int_alloc (second_ctor_throws 7) (init_world 1000))) = 0"
  by (simp add: run_defs)

text \<open>
  C2. \<open>reset(2)\<close> on the array \<open>{7, 7}\<close> when the second default construction throws: the
  array keeps a non-null pointer to the new block, a size of two and one constructed
  element. \<open>reset(1000)\<close> when the free store cannot provide the block: the array keeps
  the pointer to its old block, which has been released, and a size of 1000. Neither is
  the empty state.
\<close>

theorem reset_failure_not_empty_state:
  "fst (DynArray_reset (second_ctor_throws 0) 0 2 sevens) = Throws element_failure
   \<and> objs (snd (DynArray_reset (second_ctor_throws 0) 0 2 sevens)) 0
     = \<lparr>alloc_f = int_alloc, mem_f = 32, n_f = 2\<rparr>
   \<and> blocks (snd (DynArray_reset (second_ctor_throws 0) 0 2 sevens)) 32 = Some [Some 0, None]
   \<and> \<not> empty_state 0 (snd (DynArray_reset (second_ctor_throws 0) 0 2 sevens))
   \<and> fst (DynArray_reset (\<lambda>i. Some 0) 0 1000 sevens) = Throws bad_alloc
   \<and> objs (snd (DynArray_reset (\<lambda>i. Some 0) 0 1000 sevens)) 0
     = \<lparr>alloc_f = int_alloc, mem_f = 16, n_f = 1000\<rparr>
   \<and> blocks (snd (DynArray_reset (\<lambda>i. Some 0) 0 1000 sevens)) 16 = None
   \<and> \<not> empty_state 0 (snd (DynArray_reset (\<lambda>i. Some 0) 0 1000 sevens))"
  by (simp add: sevens_def empty_state_def run_defs)

text \<open>
  C5. The structural invariant holds for a freshly built array, also one of size zero
  (see \<open>DynArray_sized_establishes_inv\<close> for every size), but not at every point of an
  array's lifetime: after \<open>reset(1000)\<close> has failed to allocate, the array still exists,
  its pointer is non-null and points to no live block. Its destructor would then release
  that block a second time.
\<close>

theorem reset_failure_breaks_invariant:
  "DynArray_inv 0 sevens
   \<and> DynArray_inv 0 (snd (DynArray_sized 0 0 int_alloc (\<lambda>i. Some 7) (init_world 1000 :: nat world)))
   \<and> fst (DynArray_reset (\<lambda>i. Some 0) 0 1000 sevens) = Throws bad_alloc
   \<and> \<not> DynArray_inv 0 (snd (DynArray_reset (\<lambda>i. Some 0) 0 1000 sevens))
   \<and> fst (DynArray_deallocate 0 (snd (DynArray_reset (\<lambda>i. Some 0) 0 1000 sevens))) = Undefined"
  by (simp add: sevens_def DynArray_inv_def empty_state_def run_defs)

text \<open>
  C1. Copy assignment of the array \<open>{7, 9}\<close> (object 1) to the array \<open>{7, 7}\<close> (object 0)
  when copying the value 9 throws: the exception reaches the caller, but the block
  allocated for the copy (address 48) is not released. The destination keeps pointing to
  it with a size of two while both slots are raw storage, and running the destination's
  destructor afterwards is undefined.
\<close>

theorem copy_assign_failure_keeps_raw_block:
  "fst (DynArray_copy_assign copy_throws_on_9 0 1 two_arrays) = Throws element_failure
   \<and> objs (snd (DynArray_copy_assign copy_throws_on_9 0 1 two_arrays)) 0
     = \<lparr>alloc_f = int_alloc, mem_f = 48, n_f = 2\<rparr>
   \<and> blocks (snd (DynArray_copy_assign copy_throws_on_9 0 1 two_arrays)) 48 = Some [None, None]
   \<and> fst (DynArray_deallocate 0 (snd (DynArray_copy_assign copy_throws_on_9 0 1 two_arrays)))
     = Undefined"
  by (simp add: two_arrays_def sevens_def run_defs)

text \<open>
  C10. Self-assignment \<open>a = a\<close> of the array \<open>{7, 7}\<close>: \<open>deallocate()\<close> destroys both
  elements and releases the block before anything is read, and the copy then reads its
  sources from the freshly allocated raw block, the array's own new storage. The old
  block is gone and the array's two slots hold no element.
\<close>

theorem self_copy_assign_loses_elements:
  "elements 0 sevens = [Some 7, Some 7]
   \<and> fst (DynArray_copy_assign Some 0 0 sevens) = Undefined
   \<and> blocks (snd (DynArray_copy_assign Some 0 0 sevens)) 16 = None
   \<and> elements 0 (snd (DynArray_copy_assign Some 0 0 sevens)) = [None, None]"
  by (simp add: sevens_def elements_def run_defs)

end
